theory Spec2Isabelle
  imports Complex_Main
begin

section \<open>The gesture detector of \<^verbatim>\<open>gesture_detector.py\<close>\<close>

text \<open>
  The embedding follows \<^verbatim>\<open>GestureDetector\<close>: the two pure methods
  \<^verbatim>\<open>_is_finger_extended\<close> and \<^verbatim>\<open>_classify_gesture\<close>, and the cooldown
  part of \<^verbatim>\<open>detect_gesture\<close>.

  Coordinates, confidences and clock readings are Python floats in the program. Here they
  are real numbers: arithmetic is exact, and rounding, underflow, NaN and the infinities
  are outside the model. The program compares rounded values with its thresholds 0.9, 0.3,
  0.5 and 0.08, so a property whose truth is decided by a rounding at a threshold is not a
  property of this model, and none is stated. The theorems on the classifier are about the
  reads of the array and the order of the rules, and take the outcome of each comparison as
  given; those on the cooldown use the order of the clock readings. An exception is a
  value: a function that can raise returns \<open>py_error + 'a\<close>, with \<open>Inl\<close> for the
  exception.
\<close>

subsection \<open>Data\<close>

text \<open>A landmark is the row \<^verbatim>\<open>[landmark.x, landmark.y, landmark.z]\<close> of the array.\<close>

type_synonym landmark = "real \<times> real \<times> real"
type_synonym landmarks = "landmark list"
type_synonym vec2 = "real \<times> real"

datatype py_error = IndexError

text \<open>
  A gesture name is a Python string or \<^verbatim>\<open>None\<close>; \<^verbatim>\<open>_classify_gesture\<close>
  returns the pair \<^verbatim>\<open>(gesture_name, confidence)\<close>.
\<close>

type_synonym gesture = "string option"
type_synonym classification = "gesture \<times> real"

text \<open>
  \<^verbatim>\<open>landmarks[i]\<close> on the first axis of the array: an index from \<open>0\<close> up to the number
  of rows reads from the front, one from \<open>-1\<close> down to minus that number reads from the
  back, and any other raises \<^verbatim>\<open>IndexError\<close>.
\<close>

definition getitem :: "landmarks \<Rightarrow> int \<Rightarrow> py_error + landmark" where
  "getitem landmarks i =
     (if 0 \<le> i \<and> i < int (length landmarks) then Inr (landmarks ! nat i)
      else if i < 0 \<and> - int (length landmarks) \<le> i
      then Inr (landmarks ! nat (int (length landmarks) + i))
      else Inl IndexError)"

text \<open>\<^verbatim>\<open>p[:2]\<close>: the planar part of a landmark.\<close>

definition xy :: "landmark \<Rightarrow> vec2" where
  "xy p = (fst p, fst (snd p))"

definition vsub :: "vec2 \<Rightarrow> vec2 \<Rightarrow> vec2" where
  "vsub a b = (fst a - fst b, snd a - snd b)"

text \<open>\<^verbatim>\<open>np.linalg.norm\<close> of a vector of two components.\<close>

definition linalg_norm :: "vec2 \<Rightarrow> real" where
  "linalg_norm v = sqrt (fst v * fst v + snd v * snd v)"

text \<open>\<^verbatim>\<open>v / c\<close> and \<^verbatim>\<open>np.dot\<close>.\<close>

definition vdiv :: "vec2 \<Rightarrow> real \<Rightarrow> vec2" where
  "vdiv v c = (fst v / c, snd v / c)"

definition dot :: "vec2 \<Rightarrow> vec2 \<Rightarrow> real" where
  "dot a b = fst a * fst b + snd a * snd b"

text \<open>
  The guarded normalisation the source writes three times:
  \<^verbatim>\<open>if np.linalg.norm(v) > 0: v = v / np.linalg.norm(v)\<close>.
\<close>

definition normalize_if_nonzero :: "vec2 \<Rightarrow> vec2" where
  "normalize_if_nonzero v = (if linalg_norm v > 0 then vdiv v (linalg_norm v) else v)"

subsection \<open>\<^verbatim>\<open>_is_finger_extended\<close>\<close>

text \<open>
  The \<^verbatim>\<open>if/elif\<close> chain on \<^verbatim>\<open>finger_tip_idx\<close>: the pair
  \<^verbatim>\<open>(ip_idx, mcp_idx)\<close>, or \<open>None\<close> for the final \<^verbatim>\<open>else\<close>.
\<close>

definition finger_joints :: "int \<Rightarrow> (int \<times> int) option" where
  "finger_joints finger_tip_idx =
     (if finger_tip_idx = 4 then Some (3, 2)
      else if finger_tip_idx = 8 then Some (7, 5)
      else if finger_tip_idx = 12 then Some (11, 9)
      else if finger_tip_idx = 16 then Some (15, 13)
      else if finger_tip_idx = 20 then Some (19, 17)
      else None)"

text \<open>The part of the method after the four positions are read (lines 177 to 198).\<close>

definition extended_criteria :: "landmark \<Rightarrow> landmark \<Rightarrow> landmark \<Rightarrow> landmark \<Rightarrow> bool" where
  "extended_criteria tip ip mcp wrist =
     (let tip_to_wrist = linalg_norm (vsub (xy tip) (xy wrist));
          ip_to_wrist = linalg_norm (vsub (xy ip) (xy wrist));
          wrist_to_mcp = normalize_if_nonzero (vsub (xy mcp) (xy wrist));
          mcp_to_tip = normalize_if_nonzero (vsub (xy tip) (xy mcp));
          dot_product = dot wrist_to_mcp mcp_to_tip;
          distance_criterion = (tip_to_wrist > ip_to_wrist * 0.9);
          direction_criterion = (dot_product > 0.3)
      in distance_criterion \<and> direction_criterion)"

definition is_finger_extended :: "landmarks \<Rightarrow> int \<Rightarrow> py_error + bool" where
  "is_finger_extended landmarks finger_tip_idx =
     (case finger_joints finger_tip_idx of
        None \<Rightarrow> Inr False
      | Some (ip_idx, mcp_idx) \<Rightarrow>
          (case getitem landmarks finger_tip_idx of Inl e \<Rightarrow> Inl e | Inr tip \<Rightarrow>
          (case getitem landmarks ip_idx of Inl e \<Rightarrow> Inl e | Inr ip \<Rightarrow>
          (case getitem landmarks mcp_idx of Inl e \<Rightarrow> Inl e | Inr mcp \<Rightarrow>
          (case getitem landmarks 0 of Inl e \<Rightarrow> Inl e | Inr wrist \<Rightarrow>
             Inr (extended_criteria tip ip mcp wrist))))))"

subsection \<open>\<^verbatim>\<open>_classify_gesture\<close>\<close>

text \<open>The rules, once the six positions and the five extension flags are there (lines 117 to 148).\<close>

definition classify_rules ::
  "landmark \<Rightarrow> landmark \<Rightarrow> landmark \<Rightarrow> bool \<Rightarrow> bool \<Rightarrow> bool \<Rightarrow> bool \<Rightarrow> bool \<Rightarrow> classification" where
  "classify_rules thumb_tip index_tip wrist
       thumb_extended index_extended middle_extended ring_extended pinky_extended =
     (let direction = normalize_if_nonzero (vsub (xy index_tip) (xy wrist))
      in if index_extended \<and> \<not> middle_extended \<and> \<not> ring_extended \<and> \<not> pinky_extended \<and>
            fst direction > 0.5
         then (Some ''right'', 0.85)
         else if index_extended \<and> \<not> middle_extended \<and> \<not> ring_extended \<and> \<not> pinky_extended \<and>
            fst direction < - 0.5
         then (Some ''left'', 0.85)
         else if index_extended \<and> middle_extended \<and> \<not> ring_extended \<and> \<not> pinky_extended
         then (Some ''two_fingers'', 0.9)
         else if middle_extended \<and> ring_extended \<and> pinky_extended \<and>
            linalg_norm (vsub (xy thumb_tip) (xy index_tip)) < 0.08
         then (Some ''ok'', 0.85)
         else if thumb_extended \<and> index_extended \<and> middle_extended \<and> ring_extended \<and>
            pinky_extended
         then (Some ''palm'', 0.9)
         else (None, 0))"

definition classify_gesture :: "landmarks \<Rightarrow> py_error + classification" where
  "classify_gesture landmarks =
     (case getitem landmarks 4 of Inl e \<Rightarrow> Inl e | Inr thumb_tip \<Rightarrow>
     (case getitem landmarks 8 of Inl e \<Rightarrow> Inl e | Inr index_tip \<Rightarrow>
     (case getitem landmarks 12 of Inl e \<Rightarrow> Inl e | Inr middle_tip \<Rightarrow>
     (case getitem landmarks 16 of Inl e \<Rightarrow> Inl e | Inr ring_tip \<Rightarrow>
     (case getitem landmarks 20 of Inl e \<Rightarrow> Inl e | Inr pinky_tip \<Rightarrow>
     (case getitem landmarks 0 of Inl e \<Rightarrow> Inl e | Inr wrist \<Rightarrow>
     (case is_finger_extended landmarks 4 of Inl e \<Rightarrow> Inl e | Inr thumb_extended \<Rightarrow>
     (case is_finger_extended landmarks 8 of Inl e \<Rightarrow> Inl e | Inr index_extended \<Rightarrow>
     (case is_finger_extended landmarks 12 of Inl e \<Rightarrow> Inl e | Inr middle_extended \<Rightarrow>
     (case is_finger_extended landmarks 16 of Inl e \<Rightarrow> Inl e | Inr ring_extended \<Rightarrow>
     (case is_finger_extended landmarks 20 of Inl e \<Rightarrow> Inl e | Inr pinky_extended \<Rightarrow>
        Inr (classify_rules thumb_tip index_tip wrist
               thumb_extended index_extended middle_extended ring_extended
               pinky_extended))))))))))))"

subsection \<open>\<^verbatim>\<open>detect_gesture\<close>: the cooldown\<close>

text \<open>
  The fields of the detector that \<^verbatim>\<open>detect_gesture\<close> reads and writes. \<open>log_rows\<close>
  is what \<^verbatim>\<open>log_gesture\<close> has written to the CSV file, one row
  \<^verbatim>\<open>(gesture, confidence, success)\<close> per call; the first column of a row, the wall-clock
  string of \<^verbatim>\<open>datetime.now()\<close>, is left out.
\<close>

record detector =
  last_gesture :: gesture
  gesture_timestamp :: real
  gesture_cooldown :: real
  log_rows :: "(gesture \<times> real \<times> bool) list"

text \<open>The detector as \<^verbatim>\<open>__init__\<close> leaves it.\<close>

definition init_detector :: detector where
  "init_detector =
     \<lparr>last_gesture = None, gesture_timestamp = 0, gesture_cooldown = 0.8, log_rows = []\<rparr>"

text \<open>\<^verbatim>\<open>log_gesture(gesture, confidence)\<close>, with \<^verbatim>\<open>success=True\<close> by default.\<close>

definition log_gesture :: "detector \<Rightarrow> gesture \<Rightarrow> real \<Rightarrow> detector" where
  "log_gesture d gesture confidence =
     d\<lparr>log_rows := log_rows d @ [(gesture, confidence, True)]\<rparr>"

text \<open>\<^verbatim>\<open>if gesture:\<close> holds for a string that is not empty.\<close>

definition truthy :: "gesture \<Rightarrow> bool" where
  "truthy g = (case g of None \<Rightarrow> False | Some s \<Rightarrow> s \<noteq> [])"

text \<open>
  What \<^verbatim>\<open>detect_gesture\<close> returns: \<^verbatim>\<open>(gesture_name, hand_landmarks, confidence)\<close>.
\<close>

type_synonym detection = "gesture \<times> landmarks option \<times> real"

text \<open>
  The \<^verbatim>\<open>for hand_landmarks in results.multi_hand_landmarks\<close> loop. A hand is its
  landmarks together with the value \<^verbatim>\<open>time.time()\<close> returns in its iteration. The
  loop returns at the first hand that is inside the cooldown or that has a gesture, and
  falls through to \<^verbatim>\<open>return None, None, 0\<close> otherwise.
\<close>

fun detect_hands :: "detector \<Rightarrow> (landmarks \<times> real) list \<Rightarrow> py_error + (detection \<times> detector)" where
  "detect_hands d [] = Inr ((None, None, 0), d)"
| "detect_hands d ((landmarks, current_time) # hands) =
     (case classify_gesture landmarks of
        Inl e \<Rightarrow> Inl e
      | Inr (gesture, confidence) \<Rightarrow>
          if current_time - gesture_timestamp d < gesture_cooldown d
          then Inr ((None, Some landmarks, 0), d)
          else if truthy gesture
          then Inr ((gesture, Some landmarks, confidence),
                    log_gesture (d\<lparr>gesture_timestamp := current_time, last_gesture := gesture\<rparr>)
                      gesture confidence)
          else detect_hands d hands)"

text \<open>
  \<^verbatim>\<open>results.multi_hand_landmarks\<close> is \<^verbatim>\<open>None\<close> when no hand is found; the
  \<^verbatim>\<open>if\<close> skips the loop for \<^verbatim>\<open>None\<close> and for an empty list.
\<close>

definition detect_gesture ::
  "detector \<Rightarrow> (landmarks \<times> real) list option \<Rightarrow> py_error + (detection \<times> detector)" where
  "detect_gesture d multi_hand_landmarks =
     (case multi_hand_landmarks of
        None \<Rightarrow> Inr ((None, None, 0), d)
      | Some hands \<Rightarrow> if hands = [] then Inr ((None, None, 0), d) else detect_hands d hands)"

text \<open>
  The main loop of \<^verbatim>\<open>main.py\<close> calls \<^verbatim>\<open>detect_gesture\<close> once per camera frame,
  inside a \<^verbatim>\<open>try\<close> whose handler logs the exception and goes on with the next frame.
  For the detector this is a run over the frames: a call that raises leaves the detector as
  it was, since the classification comes before every assignment.
\<close>

type_synonym frame = "(landmarks \<times> real) list option"

fun detect_frames :: "detector \<Rightarrow> frame list \<Rightarrow> (py_error + detection) list \<times> detector" where
  "detect_frames d [] = ([], d)"
| "detect_frames d (f # fs) =
     (case detect_gesture d f of
        Inl e \<Rightarrow> (let (outs, d') = detect_frames d fs in (Inl e # outs, d'))
      | Inr (out, d1) \<Rightarrow> (let (outs, d') = detect_frames d1 fs in (Inr out # outs, d')))"

text \<open>
  A call emits a gesture when the name it returns passes the caller's \<^verbatim>\<open>if gesture:\<close>.
\<close>

definition emitted :: "py_error + detection \<Rightarrow> bool" where
  "emitted r = (case r of Inl e \<Rightarrow> False | Inr (gesture, hand, confidence) \<Rightarrow> truthy gesture)"

subsection \<open>Concrete inputs\<close>

text \<open>
  A hand held straight up on the line \<open>x = 0.5\<close>, the wrist at the bottom: every finger
  is stretched, and the parameter is the height of the thumb tip. At \<open>0.3\<close> the thumb tip
  meets the index tip; at \<open>0.5\<close> it is \<open>0.2\<close> away from it.
\<close>

definition open_hand :: "real \<Rightarrow> landmarks" where
  "open_hand thumb_y =
     [(0.5, 0.9, 0),
      (0.5, 0.8, 0), (0.5, 0.7, 0), (0.5, 0.6, 0), (0.5, thumb_y, 0),
      (0.5, 0.6, 0), (0.5, 0.5, 0), (0.5, 0.4, 0), (0.5, 0.3, 0),
      (0.5, 0.6, 0), (0.5, 0.5, 0), (0.5, 0.4, 0), (0.5, 0.3, 0),
      (0.5, 0.6, 0), (0.5, 0.5, 0), (0.5, 0.4, 0), (0.5, 0.3, 0),
      (0.5, 0.6, 0), (0.5, 0.5, 0), (0.5, 0.4, 0), (0.5, 0.3, 0)]"

definition ok_hand :: landmarks where
  "ok_hand = open_hand 0.3"

definition palm_hand :: landmarks where
  "palm_hand = open_hand 0.5"

text \<open>The detector after a fresh one has emitted the palm at time \<open>t\<close>.\<close>

definition after_emission :: "real \<Rightarrow> detector" where
  "after_emission t =
     \<lparr>last_gesture = Some ''palm'', gesture_timestamp = t, gesture_cooldown = 0.8,
      log_rows = [(Some ''palm'', 0.9, True)]\<rparr>"

section \<open>Basic facts\<close>

lemma getitem_nonneg:
  "0 \<le> i \<Longrightarrow> getitem lm i = (if nat i < length lm then Inr (lm ! nat i) else Inl IndexError)"
  by (auto simp: getitem_def)

lemma is_finger_extended_long:
  assumes "21 \<le> length lm"
  shows "is_finger_extended lm f =
     (case finger_joints f of None \<Rightarrow> Inr False
      | Some (i, m) \<Rightarrow> Inr (extended_criteria (lm ! nat f) (lm ! nat i) (lm ! nat m) (lm ! 0)))"
  using assms
  by (auto simp: is_finger_extended_def finger_joints_def getitem_nonneg split: option.splits)

lemma classify_gesture_long:
  assumes "21 \<le> length lm"
  shows "classify_gesture lm =
     Inr (classify_rules (lm ! 4) (lm ! 8) (lm ! 0)
            (extended_criteria (lm ! 4) (lm ! 3) (lm ! 2) (lm ! 0))
            (extended_criteria (lm ! 8) (lm ! 7) (lm ! 5) (lm ! 0))
            (extended_criteria (lm ! 12) (lm ! 11) (lm ! 9) (lm ! 0))
            (extended_criteria (lm ! 16) (lm ! 15) (lm ! 13) (lm ! 0))
            (extended_criteria (lm ! 20) (lm ! 19) (lm ! 17) (lm ! 0)))"
proof -
  from assms have "lm \<noteq> []" by auto
  with assms show ?thesis
    by (simp add: classify_gesture_def is_finger_extended_long finger_joints_def getitem_nonneg)
qed

lemma classify_gesture_short:
  assumes "length lm < 21"
  shows "classify_gesture lm = Inl IndexError"
  using assms
  by (auto simp: classify_gesture_def getitem_nonneg split: sum.splits)

lemma linalg_norm_vertical: "linalg_norm (0, y) = \<bar>y\<bar>"
  by (simp add: linalg_norm_def)

lemma linalg_norm_horizontal: "linalg_norm (x, 0) = \<bar>x\<bar>"
  by (simp add: linalg_norm_def)

lemmas hand_eval =
  ok_hand_def palm_hand_def open_hand_def
  classify_gesture_long classify_rules_def extended_criteria_def normalize_if_nonzero_def
  vsub_def xy_def vdiv_def dot_def linalg_norm_vertical linalg_norm_horizontal

lemma ok_hand_ok: "classify_gesture ok_hand = Inr (Some ''ok'', 0.85)"
  by (simp add: hand_eval)

lemma palm_hand_palm: "classify_gesture palm_hand = Inr (Some ''palm'', 0.9)"
  by (simp add: hand_eval)

subsection \<open>Facts about the cooldown\<close>

lemma detect_gesture_hand:
  "detect_gesture d (Some ((lm, now) # hands)) =
     (case classify_gesture lm of
        Inl e \<Rightarrow> Inl e
      | Inr (g, c) \<Rightarrow>
          if now - gesture_timestamp d < gesture_cooldown d then Inr ((None, Some lm, 0), d)
          else if truthy g
          then Inr ((g, Some lm, c),
                 log_gesture (d\<lparr>gesture_timestamp := now, last_gesture := g\<rparr>) g c)
          else detect_gesture d (Some hands))"
  by (cases hands) (simp_all add: detect_gesture_def split: sum.splits)

lemma detect_hands_cases:
  assumes "detect_hands d hands = Inr ((g, h, c), d')"
  shows "(d' = d \<and> \<not> truthy g) \<or>
         (truthy g \<and> gesture_cooldown d' = gesture_cooldown d \<and>
           gesture_cooldown d \<le> gesture_timestamp d' - gesture_timestamp d)"
  using assms
proof (induction hands)
  case Nil
  then show ?case by (simp add: truthy_def)
next
  case (Cons a hands)
  obtain lm now where a: "a = (lm, now)" by (cases a)
  from Cons show ?case unfolding a
    by (auto simp: log_gesture_def truthy_def split: sum.splits if_splits prod.splits)
qed

lemma detect_gesture_cases:
  assumes "detect_gesture d f = Inr ((g, h, c), d')"
  shows "(d' = d \<and> \<not> truthy g) \<or>
         (truthy g \<and> gesture_cooldown d' = gesture_cooldown d \<and>
           gesture_cooldown d \<le> gesture_timestamp d' - gesture_timestamp d)"
  using assms detect_hands_cases [of d _ g h c d']
  by (auto simp: detect_gesture_def truthy_def split: option.splits if_splits)

lemma detect_frames_timestamp:
  assumes "detect_frames d fs = (outs, d')" and "0 \<le> gesture_cooldown d"
  shows "gesture_cooldown d' = gesture_cooldown d \<and> gesture_timestamp d \<le> gesture_timestamp d'"
  using assms
proof (induction fs arbitrary: d outs)
  case Nil
  then show ?case by simp
next
  case (Cons f fs)
  show ?case
  proof (cases "detect_gesture d f")
    case (Inl e)
    with Cons.prems obtain outs' where "detect_frames d fs = (outs', d')"
      by (auto split: prod.splits)
    from Cons.IH [OF this Cons.prems(2)] show ?thesis .
  next
    case (Inr r)
    obtain g h c d1 where r: "r = ((g, h, c), d1)" by (cases r) auto
    with Inr Cons.prems obtain outs' where run: "detect_frames d1 fs = (outs', d')"
      by (auto split: prod.splits)
    from Inr r have "detect_gesture d f = Inr ((g, h, c), d1)" by simp
    from detect_gesture_cases [OF this] Cons.prems(2)
    have step: "gesture_cooldown d1 = gesture_cooldown d \<and> gesture_timestamp d \<le> gesture_timestamp d1"
      by auto
    with Cons.prems(2) have "0 \<le> gesture_cooldown d1" by simp
    from Cons.IH [OF run this] step show ?thesis by simp
  qed
qed

lemma detect_frames_quiet:
  assumes "detect_frames d fs = (outs, d')" and "\<forall>r \<in> set outs. \<not> emitted r"
  shows "d' = d"
  using assms
proof (induction fs arbitrary: d outs)
  case Nil
  then show ?case by simp
next
  case (Cons f fs)
  show ?case
  proof (cases "detect_gesture d f")
    case (Inl e)
    with Cons.prems obtain outs' where run: "detect_frames d fs = (outs', d')"
      and outs: "outs = Inl e # outs'"
      by (auto split: prod.splits)
    from outs Cons.prems(2) have "\<forall>r \<in> set outs'. \<not> emitted r" by simp
    from Cons.IH [OF run this] show ?thesis .
  next
    case (Inr r)
    obtain g h c d1 where r: "r = ((g, h, c), d1)" by (cases r) auto
    with Inr Cons.prems obtain outs' where run: "detect_frames d1 fs = (outs', d')"
      and outs: "outs = Inr (g, h, c) # outs'"
      by (auto split: prod.splits)
    from outs Cons.prems(2) have quiet: "\<not> truthy g" "\<forall>r \<in> set outs'. \<not> emitted r"
      by (auto simp: emitted_def)
    from Inr r have "detect_gesture d f = Inr ((g, h, c), d1)" by simp
    from detect_gesture_cases [OF this] quiet(1) have "d1 = d" by auto
    with Cons.IH [OF run quiet(2)] show ?thesis by simp
  qed
qed

lemma detect_gesture_emission:
  assumes "detect_gesture d (Some [(lm, t)]) = Inr ((Some g, h, c), d1)"
  shows "truthy (Some g) \<and> gesture_timestamp d1 = t \<and> gesture_cooldown d1 = gesture_cooldown d"
  using assms
  by (auto simp: detect_gesture_hand detect_gesture_def log_gesture_def
      split: sum.splits if_splits prod.splits)

lemma detect_hands_timestamp_only:
  assumes "gesture_timestamp d = gesture_timestamp d'" and "gesture_cooldown d = gesture_cooldown d'"
  shows "map_sum id fst (detect_hands d hands) = map_sum id fst (detect_hands d' hands)"
  using assms
  by (induction hands) (auto split: sum.splits prod.splits)

lemma detect_gesture_truthy:
  assumes "detect_gesture d (Some [(lm, t)]) = Inr ((g, h, c), d1)" and "truthy g"
  shows "gesture_timestamp d1 = t \<and> gesture_cooldown d1 = gesture_cooldown d"
  using assms
  by (auto simp: detect_gesture_hand detect_gesture_def log_gesture_def truthy_def
      split: sum.splits if_splits prod.splits)

section \<open>The classifier\<close>

text \<open>
  C1, as the code has it. The claim is that an input whose length is not 21 is answered with
  \<^verbatim>\<open>(None, 0)\<close> and no exception. The method has no length check: with fewer than 21
  landmarks one of its reads \<^verbatim>\<open>landmarks[4]\<close> ... \<^verbatim>\<open>landmarks[20]\<close> raises
  \<^verbatim>\<open>IndexError\<close>, and with 21 or more it does not raise and returns what it returns on
  the first 21 landmarks, the rest being ignored.
\<close>

theorem classify_gesture_by_length:
  "(length lm < 21 \<longrightarrow> classify_gesture lm = Inl IndexError) \<and>
   (21 \<le> length lm \<longrightarrow>
      classify_gesture lm = classify_gesture (take 21 lm) \<and>
      (\<exists>r. classify_gesture lm = Inr r))"
proof (intro conjI impI)
  assume "length lm < 21"
  then show "classify_gesture lm = Inl IndexError" by (rule classify_gesture_short)
next
  assume long: "21 \<le> length lm"
  then have "21 \<le> length (take 21 lm)" by simp
  then show "classify_gesture lm = classify_gesture (take 21 lm)"
    using long by (simp add: classify_gesture_long)
  from long show "\<exists>r. classify_gesture lm = Inr r"
    by (simp add: classify_gesture_long)
qed

theorem classify_gesture_by_length_witness:
  "length ([] :: landmarks) < 21 \<and> classify_gesture [] = Inl IndexError \<and>
   21 \<le> length (ok_hand @ [(0, 0, 0)]) \<and>
   classify_gesture (ok_hand @ [(0, 0, 0)]) = Inr (Some ''ok'', 0.85)"
  using classify_gesture_by_length [of "[]"]
    classify_gesture_by_length [of "ok_hand @ [(0, 0, 0)]"] ok_hand_ok
  by (simp add: ok_hand_def palm_hand_def open_hand_def)

text \<open>
  C1 as it is stated fails on the code: the empty input has a length other than 21 and raises,
  and a hand of 22 landmarks has a length other than 21 and is classified as a gesture.
\<close>

theorem classify_gesture_wrong_length_counterexample:
  "length ([] :: landmarks) \<noteq> 21 \<and> classify_gesture [] = Inl IndexError \<and>
   length (ok_hand @ [(0, 0, 0)]) \<noteq> 21 \<and>
   classify_gesture (ok_hand @ [(0, 0, 0)]) = Inr (Some ''ok'', 0.85)"
  by (simp add: hand_eval classify_gesture_short)

text \<open>
  C6: on every set of 21 landmarks \<^verbatim>\<open>_classify_gesture\<close> returns, without raising, one
  of the six results: a label of the five gestures with the confidence of its rule, or
  \<^verbatim>\<open>None\<close> with confidence 0. The function has no loop and no recursion.
\<close>

theorem classify_gesture_total:
  "length lm = 21 \<Longrightarrow>
   classify_gesture lm \<in> Inr ` {(Some ''right'', 0.85), (Some ''left'', 0.85),
     (Some ''two_fingers'', 0.9), (Some ''ok'', 0.85), (Some ''palm'', 0.9), (None, 0)}"
  by (simp add: classify_gesture_long classify_rules_def Let_def)

theorem classify_gesture_total_witness:
  "length palm_hand = 21 \<and>
   classify_gesture palm_hand \<in> Inr ` {(Some ''right'', 0.85), (Some ''left'', 0.85),
     (Some ''two_fingers'', 0.9), (Some ''ok'', 0.85), (Some ''palm'', 0.9), (None, 0)}"
  using classify_gesture_total [of "palm_hand"]
  by (simp add: ok_hand_def palm_hand_def open_hand_def)

text \<open>
  C4: when the middle, ring and pinky fingers of a set of 21 landmarks are extended and the
  planar distance between the thumb tip and the index tip is below 0.08, the result is
  \<^verbatim>\<open>("ok", 0.85)\<close>, whatever the thumb and the index finger do: also when all five
  fingers are extended, since the OK rule comes before the palm rule.
\<close>

theorem ok_before_palm:
  assumes "length lm = 21"
    and "is_finger_extended lm 12 = Inr True"
    and "is_finger_extended lm 16 = Inr True"
    and "is_finger_extended lm 20 = Inr True"
    and "linalg_norm (vsub (xy (lm ! 4)) (xy (lm ! 8))) < 0.08"
  shows "classify_gesture lm = Inr (Some ''ok'', 0.85)"
  using assms
  by (simp add: classify_gesture_long is_finger_extended_long finger_joints_def
      classify_rules_def Let_def)

theorem ok_before_palm_witness:
  "length ok_hand = 21 \<and>
   is_finger_extended ok_hand 4 = Inr True \<and>
   is_finger_extended ok_hand 8 = Inr True \<and>
   is_finger_extended ok_hand 12 = Inr True \<and>
   is_finger_extended ok_hand 16 = Inr True \<and>
   is_finger_extended ok_hand 20 = Inr True \<and>
   linalg_norm (vsub (xy (ok_hand ! 4)) (xy (ok_hand ! 8))) < 0.08 \<and>
   classify_gesture ok_hand = Inr (Some ''ok'', 0.85)"
proof -
  have len: "length ok_hand = 21"
    by (simp add: ok_hand_def palm_hand_def open_hand_def)
  have ext: "is_finger_extended ok_hand 4 = Inr True"
    "is_finger_extended ok_hand 8 = Inr True"
    "is_finger_extended ok_hand 12 = Inr True"
    "is_finger_extended ok_hand 16 = Inr True"
    "is_finger_extended ok_hand 20 = Inr True"
    by (simp_all add: is_finger_extended_long finger_joints_def hand_eval)
  have near: "linalg_norm (vsub (xy (ok_hand ! 4)) (xy (ok_hand ! 8))) < 0.08"
    by (simp add: hand_eval)
  from ok_before_palm [OF len ext(3) ext(4) ext(5) near] len ext near
  show ?thesis by simp
qed

text \<open>
  C9: two sets of 21 landmarks that agree on the x and y coordinates of every point, whatever
  their z coordinates, get the same result from \<^verbatim>\<open>_classify_gesture\<close> and, for every
  finger index, the same result from \<^verbatim>\<open>_is_finger_extended\<close>.
\<close>

theorem classify_depth_invariant:
  assumes "length lm = 21" and "length lm' = 21"
    and "\<forall>i < 21. fst (lm ! i) = fst (lm' ! i) \<and> fst (snd (lm ! i)) = fst (snd (lm' ! i))"
  shows "classify_gesture lm = classify_gesture lm' \<and>
         (\<forall>finger. is_finger_extended lm finger = is_finger_extended lm' finger)"
proof -
  from assms(3) have same: "\<And>i. i < 21 \<Longrightarrow>  xy (lm ! i) = xy (lm' ! i)"
    by (simp add: xy_def)
  have ext: "\<And>t i m. t < 21 \<Longrightarrow> i < 21 \<Longrightarrow> m < 21 \<Longrightarrow>
      extended_criteria (lm ! t) (lm ! i) (lm ! m) (lm ! 0) =
      extended_criteria (lm' ! t) (lm' ! i) (lm' ! m) (lm' ! 0)"
    by (simp add: extended_criteria_def same)
  have "classify_gesture lm = classify_gesture lm'"
    using assms(1,2) by (simp add: classify_gesture_long ext classify_rules_def same)
  moreover have "is_finger_extended lm finger = is_finger_extended lm' finger" for finger
    using assms(1,2)
    by (auto simp: is_finger_extended_long finger_joints_def ext)
  ultimately show ?thesis by simp
qed

theorem classify_depth_invariant_witness:
  "length ok_hand = 21 \<and> length (map (\<lambda>(x, y, z). (x, y, z + 1)) ok_hand) = 21 \<and>
   map xy ok_hand = map xy (map (\<lambda>(x, y, z). (x, y, z + 1)) ok_hand) \<and>
   snd (snd (ok_hand ! 8)) \<noteq> snd (snd (map (\<lambda>(x, y, z). (x, y, z + 1)) ok_hand ! 8)) \<and>
   classify_gesture (map (\<lambda>(x, y, z). (x, y, z + 1)) ok_hand) = Inr (Some ''ok'', 0.85)"
proof -
  have len: "length ok_hand = 21" "length (map (\<lambda>(x, y, z). (x, y, z + 1)) ok_hand) = 21"
    by (simp_all add: hand_eval)
  have same: "\<forall>i < 21. fst (ok_hand ! i) = fst (map (\<lambda>(x, y, z). (x, y, z + 1)) ok_hand ! i) \<and>
      fst (snd (ok_hand ! i)) = fst (snd (map (\<lambda>(x, y, z). (x, y, z + 1)) ok_hand ! i))"
    using len(1) by (auto simp: split_def)
  have z: "snd (snd (ok_hand ! 8)) \<noteq> snd (snd (map (\<lambda>(x, y, z). (x, y, z + 1)) ok_hand ! 8))"
    by (simp add: hand_eval)
  have planar: "map xy ok_hand = map xy (map (\<lambda>(x, y, z). (x, y, z + 1)) ok_hand)"
    by (simp add: xy_def split_def)
  from classify_depth_invariant [OF len same] ok_hand_ok len planar z
  show ?thesis by simp
qed

section \<open>The cooldown\<close>

text \<open>
  C5: when the hand of a frame is classified as a gesture and the clock reading of the frame
  minus \<^verbatim>\<open>gesture_timestamp\<close> is below \<^verbatim>\<open>gesture_cooldown\<close> (0.8 in every detector,
  as \<^verbatim>\<open>__init__\<close> sets it and nothing writes it), \<^verbatim>\<open>detect_gesture\<close> returns no
  gesture and confidence 0, and the detector is the same afterwards: neither
  \<^verbatim>\<open>gesture_timestamp\<close> nor \<^verbatim>\<open>last_gesture\<close> is written, and nothing is logged.
\<close>

theorem cooldown_suppresses_unchanged:
  assumes "classify_gesture lm = Inr (Some g, c)"
    and "now - gesture_timestamp d < gesture_cooldown d"
  shows "detect_gesture d (Some ((lm, now) # hands)) = Inr ((None, Some lm, 0), d)"
  using assms by (simp add: detect_gesture_hand)

theorem cooldown_suppresses_unchanged_witness:
  "classify_gesture ok_hand = Inr (Some ''ok'', 0.85) \<and>
   10.5 - gesture_timestamp (after_emission 10) < gesture_cooldown (after_emission 10) \<and>
   detect_gesture (after_emission 10) (Some [(ok_hand, 10.5)]) =
     Inr ((None, Some ok_hand, 0), after_emission 10)"
proof -
  have t: "10.5 - gesture_timestamp (after_emission 10) < gesture_cooldown (after_emission 10)"
    by (simp add: after_emission_def)
  from cooldown_suppresses_unchanged [OF ok_hand_ok t, of "[]"] ok_hand_ok t
  show ?thesis by simp
qed

text \<open>
  C8: the detector emits a gesture at time \<open>t\<close>; frames follow on which nothing is emitted;
  then a frame at time \<open>t + 0.8 + \<epsilon>\<close>, \<open>\<epsilon> > 0\<close>, is classified as the same gesture. That
  frame is emitted, and \<^verbatim>\<open>gesture_timestamp\<close> becomes its time.
\<close>

theorem cooldown_release:
  assumes cd: "gesture_cooldown d = 0.8"
    and first: "detect_gesture d (Some [(lm, t)]) = Inr ((Some g, Some lm, c), d1)"
    and mid: "detect_frames d1 mid = (outs, d2)"
    and quiet: "\<forall>r \<in> set outs. \<not> emitted r"
    and again: "classify_gesture lm' = Inr (Some g, c')"
    and eps: "0 < \<epsilon>"
  shows "detect_gesture d2 (Some [(lm', t + 0.8 + \<epsilon>)]) =
           Inr ((Some g, Some lm', c'),
                d2\<lparr>last_gesture := Some g, gesture_timestamp := t + 0.8 + \<epsilon>,
                   log_rows := log_rows d2 @ [(Some g, c', True)]\<rparr>)"
proof -
  from detect_gesture_emission [OF first] cd
  have d1: "truthy (Some g)" "gesture_timestamp d1 = t" "gesture_cooldown d1 = 0.8"
    by simp_all
  from detect_frames_quiet [OF mid quiet] have "d2 = d1" .
  with d1 eps again show ?thesis
    by (simp add: detect_gesture_hand log_gesture_def)
qed

theorem cooldown_release_witness:
  "gesture_cooldown init_detector = 0.8 \<and>
   detect_gesture init_detector (Some [(palm_hand, 10)]) =
     Inr ((Some ''palm'', Some palm_hand, 0.9), after_emission 10) \<and>
   detect_frames (after_emission 10) [Some [(palm_hand, 10.4)], None] =
     ([Inr (None, Some palm_hand, 0), Inr (None, None, 0)], after_emission 10) \<and>
   \<not> emitted (Inr (None, Some palm_hand, 0)) \<and> \<not> emitted (Inr (None, None, 0)) \<and>
   classify_gesture palm_hand = Inr (Some ''palm'', 0.9) \<and>
   detect_gesture (after_emission 10) (Some [(palm_hand, 10 + 0.8 + 0.1)]) =
     Inr ((Some ''palm'', Some palm_hand, 0.9),
          (after_emission 10)\<lparr>last_gesture := Some ''palm'', gesture_timestamp := 10 + 0.8 + 0.1,
             log_rows := log_rows (after_emission 10) @ [(Some ''palm'', 0.9, True)]\<rparr>)"
proof -
  have cd: "gesture_cooldown init_detector = 0.8"
    by (simp add: init_detector_def)
  have first: "detect_gesture init_detector (Some [(palm_hand, 10)]) =
      Inr ((Some ''palm'', Some palm_hand, 0.9), after_emission 10)"
    by (simp add: detect_gesture_hand palm_hand_palm init_detector_def after_emission_def
        log_gesture_def truthy_def)
  have mid: "detect_frames (after_emission 10) [Some [(palm_hand, 10.4)], None] =
      ([Inr (None, Some palm_hand, 0), Inr (None, None, 0)], after_emission 10)"
    by (simp add: detect_gesture_hand palm_hand_palm after_emission_def detect_gesture_def)
  have quiet: "\<forall>r \<in> set [Inr (None, Some palm_hand, 0), Inr (None, None, 0)]. \<not> emitted r"
    by (simp add: emitted_def truthy_def)
  have eps: "(0::real) < 0.1" by simp
  from cooldown_release [OF cd first mid quiet palm_hand_palm eps] cd first mid quiet palm_hand_palm
  show ?thesis by simp
qed

text \<open>
  C2: two frames are classified as gestures, at times \<open>t1 < t2\<close> less than 0.8 apart, with
  any frames between them. The detector emits at most one of the two. Whether a frame with a
  gesture is suppressed is decided by its clock reading and \<^verbatim>\<open>gesture_timestamp\<close> alone:
  the condition does not mention the label, so a palm followed within the window by an OK
  suppresses the OK.
\<close>

theorem cooldown_at_most_one:
  assumes cd: "gesture_cooldown d = 0.8"
    and r1: "classify_gesture lm1 = Inr (Some g1, c1)"
    and r2: "classify_gesture lm2 = Inr (Some g2, c2)"
    and t: "t1 < t2" "t2 - t1 < 0.8"
    and f1: "detect_gesture d (Some [(lm1, t1)]) = Inr (out1, d1)"
    and mid: "detect_frames d1 mid = (outs, d2)"
    and f2: "detect_gesture d2 (Some [(lm2, t2)]) = Inr (out2, d3)"
  shows "\<not> (emitted (Inr out1) \<and> emitted (Inr out2)) \<and>
    (\<forall>d' now.
       (detect_gesture d' (Some [(lm1, now)]) = Inr ((None, Some lm1, 0), d')) =
         (now - gesture_timestamp d' < gesture_cooldown d') \<and>
       (detect_gesture d' (Some [(lm2, now)]) = Inr ((None, Some lm2, 0), d')) =
         (now - gesture_timestamp d' < gesture_cooldown d'))"
proof (intro conjI allI)
  show "\<not> (emitted (Inr out1) \<and> emitted (Inr out2))"
  proof
    assume both: "emitted (Inr out1) \<and> emitted (Inr out2)"
    obtain g h c where out1: "out1 = (g, h, c)" by (cases out1)
    with both have "truthy g" by (simp add: emitted_def)
    from detect_gesture_truthy [OF f1 [unfolded out1] this] cd
    have d1: "gesture_timestamp d1 = t1" "gesture_cooldown d1 = 0.8" by simp_all
    then have "0 \<le> gesture_cooldown d1" by simp
    from detect_frames_timestamp [OF mid this] d1
    have d2: "gesture_cooldown d2 = 0.8" "t1 \<le> gesture_timestamp d2" by simp_all
    with t have "t2 - gesture_timestamp d2 < gesture_cooldown d2" by simp
    with f2 r2 have "out2 = (None, Some lm2, 0)"
      by (simp add: detect_gesture_hand)
    with both show False by (simp add: emitted_def truthy_def)
  qed
next
  fix d' now
  from r1 show "(detect_gesture d' (Some [(lm1, now)]) = Inr ((None, Some lm1, 0), d')) =
      (now - gesture_timestamp d' < gesture_cooldown d')"
    by (simp add: detect_gesture_hand detect_gesture_def truthy_def)
  from r2 show "(detect_gesture d' (Some [(lm2, now)]) = Inr ((None, Some lm2, 0), d')) =
      (now - gesture_timestamp d' < gesture_cooldown d')"
    by (simp add: detect_gesture_hand detect_gesture_def truthy_def)
qed

theorem cooldown_at_most_one_witness:
  "gesture_cooldown init_detector = 0.8 \<and>
   classify_gesture palm_hand = Inr (Some ''palm'', 0.9) \<and>
   classify_gesture ok_hand = Inr (Some ''ok'', 0.85) \<and>
   (10::real) < 10.5 \<and> (10.5::real) - 10 < 0.8 \<and>
   detect_gesture init_detector (Some [(palm_hand, 10)]) =
     Inr ((Some ''palm'', Some palm_hand, 0.9), after_emission 10) \<and>
   detect_frames (after_emission 10) [None] = ([Inr (None, None, 0)], after_emission 10) \<and>
   detect_gesture (after_emission 10) (Some [(ok_hand, 10.5)]) =
     Inr ((None, Some ok_hand, 0), after_emission 10) \<and>
   emitted (Inr (Some ''palm'', Some palm_hand, 0.9)) \<and>
   \<not> emitted (Inr (None, Some ok_hand, 0))"
proof -
  have cd: "gesture_cooldown init_detector = 0.8"
    by (simp add: init_detector_def)
  have t: "(10::real) < 10.5" "(10.5::real) - 10 < 0.8"
    by simp_all
  have f1: "detect_gesture init_detector (Some [(palm_hand, 10)]) =
      Inr ((Some ''palm'', Some palm_hand, 0.9), after_emission 10)"
    by (simp add: detect_gesture_hand palm_hand_palm init_detector_def after_emission_def
        log_gesture_def truthy_def)
  have mid: "detect_frames (after_emission 10) [None] = ([Inr (None, None, 0)], after_emission 10)"
    by (simp add: detect_gesture_def)
  have f2: "detect_gesture (after_emission 10) (Some [(ok_hand, 10.5)]) =
      Inr ((None, Some ok_hand, 0), after_emission 10)"
    by (simp add: detect_gesture_hand ok_hand_ok after_emission_def)
  have e1: "emitted (Inr (Some ''palm'', Some palm_hand, 0.9))"
    by (simp add: emitted_def truthy_def)
  from cooldown_at_most_one [OF cd palm_hand_palm ok_hand_ok t f1 mid f2] e1
  have "\<not> emitted (Inr (None, Some ok_hand, 0))" by blast
  with cd palm_hand_palm ok_hand_ok t f1 mid f2 e1 show ?thesis by simp
qed

text \<open>
  C10: \<^verbatim>\<open>__init__\<close> sets \<^verbatim>\<open>gesture_timestamp\<close> to 0, and the first call compares the
  clock with it as with any other value: a gesture at a clock reading below 0.8 is suppressed
  by a detector that has never emitted, and a fresh detector returns on every frame what a
  detector returns whose last emission was at time 0.
\<close>

theorem never_emitted_is_zero:
  "gesture_timestamp init_detector = 0 \<and>
   (classify_gesture lm = Inr (Some g, c) \<and> now < 0.8 \<longrightarrow>
      detect_gesture init_detector (Some [(lm, now)]) =
        Inr ((None, Some lm, 0), init_detector)) \<and>
   (gesture_timestamp d = 0 \<and> gesture_cooldown d = 0.8 \<longrightarrow>
      map_sum id fst (detect_gesture d f) = map_sum id fst (detect_gesture init_detector f))"
proof (intro conjI impI)
  show "gesture_timestamp init_detector = 0" by (simp add: init_detector_def)
next
  assume "classify_gesture lm = Inr (Some g, c) \<and> now < 0.8"
  then show "detect_gesture init_detector (Some [(lm, now)]) =
      Inr ((None, Some lm, 0), init_detector)"
    by (simp add: detect_gesture_hand init_detector_def)
next
  assume "gesture_timestamp d = 0 \<and> gesture_cooldown d = 0.8"
  then have "gesture_timestamp d = gesture_timestamp init_detector"
    "gesture_cooldown d = gesture_cooldown init_detector"
    by (simp_all add: init_detector_def)
  from detect_hands_timestamp_only [OF this]
  show "map_sum id fst (detect_gesture d f) = map_sum id fst (detect_gesture init_detector f)"
    by (simp add: detect_gesture_def split: option.splits)
qed

theorem never_emitted_is_zero_witness:
  "classify_gesture palm_hand = Inr (Some ''palm'', 0.9) \<and> (0.5::real) < 0.8 \<and>
   detect_gesture init_detector (Some [(palm_hand, 0.5)]) =
     Inr ((None, Some palm_hand, 0), init_detector) \<and>
   gesture_timestamp (after_emission 0) = 0 \<and> gesture_cooldown (after_emission 0) = 0.8 \<and>
   map_sum id fst (detect_gesture (after_emission 0) (Some [(palm_hand, 0.5)])) =
     Inr (None, Some palm_hand, 0)"
  using never_emitted_is_zero [of "palm_hand" "''palm''" "0.9" "0.5" "after_emission 0"
      "Some [(palm_hand, 0.5)]"] palm_hand_palm
  by (simp add: after_emission_def)

end
